theory Spec2Isabelle
  imports Main "HOL-Library.AList"
begin

section \<open>JavaScript values\<close>

text \<open>
  The values that cross the Worker's boundaries: what \<^verbatim>\<open>request.json()\<close> parses, what
  \<^verbatim>\<open>Response.json\<close> serialises and what the metadata object holds. An object is its
  property table, an association list with distinct keys; only lookups are claimed about,
  never the enumeration order. Numbers are the integers the code works with (counters and
  \<^verbatim>\<open>Date.now()\<close> readings).
\<close>

datatype jsval =
    JUndefined
  | JNull
  | JBool bool
  | JNum int
  | JStr string
  | JArr "jsval list"
  | JObj "(string \<times> jsval) list"

text \<open>Decimal rendering of an array index, as a property name.\<close>

fun digit_char :: "nat \<Rightarrow> char" where
  "digit_char n = char_of (48 + n)"

fun string_of_nat :: "nat \<Rightarrow> string" where
  "string_of_nat n =
     (if n < 10 then [digit_char n] else string_of_nat (n div 10) @ [digit_char (n mod 10)])"

text \<open>
  The own enumerable properties that an object spread \<^verbatim>\<open>{...v}\<close> copies: the properties
  of an object, the indexed elements of an array, the indexed characters of a string, and
  nothing for the other primitives.
\<close>

fun own_props :: "jsval \<Rightarrow> (string \<times> jsval) list" where
  "own_props (JObj kvs) = kvs"
| "own_props (JArr xs) = zip (map string_of_nat [0 ..< length xs]) xs"
| "own_props (JStr s) = zip (map string_of_nat [0 ..< length s]) (map (\<lambda>c. JStr [c]) s)"
| "own_props _ = []"

text \<open>Defining properties one after the other on an object: a later one overwrites.\<close>

definition obj_assign :: "(string \<times> jsval) list \<Rightarrow> (string \<times> jsval) list \<Rightarrow> (string \<times> jsval) list" where
  "obj_assign base props = fold (\<lambda>(k, v) obj. AList.update k v obj) props base"

definition obj_get :: "jsval \<Rightarrow> string \<Rightarrow> jsval" where
  "obj_get v k = (case map_of (own_props v) k of None \<Rightarrow> JUndefined | Some x \<Rightarrow> x)"

section \<open>Requests and responses\<close>

text \<open>
  \<^verbatim>\<open>new URL(request.url)\<close> is the platform's parser; the model takes its result, the
  components the handler reads. \<^verbatim>\<open>searchParams\<close> is the decoded query, in order.
\<close>

record url =
  protocol :: string
  host :: string
  hostname :: string
  pathname :: string
  search :: string
  searchParams :: "(string \<times> string) list"

definition href :: "url \<Rightarrow> string" where
  "href u = protocol u @ ''//'' @ host u @ pathname u @ search u"

text \<open>\<^verbatim>\<open>url.searchParams.get(name)\<close>: the first value of that name, or null.\<close>

definition searchParams_get :: "url \<Rightarrow> string \<Rightarrow> string option" where
  "searchParams_get u name = map_of (searchParams u) name"

text \<open>\<^verbatim>\<open>request.cf\<close>, which may be absent, and whose properties may be.\<close>

record cf_props =
  cf_colo :: "string option"
  cf_country :: "string option"
  cf_city :: "string option"
  cf_region :: "string option"

text \<open>
  A request: \<^verbatim>\<open>req_json\<close> is the outcome of \<^verbatim>\<open>request.json()\<close>, the parsed body or the
  message of the error it rejects with. Header names are kept in lower case, as the
  \<^verbatim>\<open>Headers\<close> class keeps them.
\<close>

record request =
  req_url :: url
  req_method :: string
  req_headers :: "(string \<times> string) list"
  req_body :: string
  req_json :: "string + jsval"
  req_cf :: "cf_props option"

datatype body = JsonBody jsval | TextBody string

record response =
  status :: nat
  headers :: "(string \<times> string) list"
  body :: body

definition lower_char :: "char \<Rightarrow> char" where
  "lower_char c =
     (let n = (of_char c :: nat) in if 65 \<le> n \<and> n \<le> 90 then char_of (n + 32) else c)"

text \<open>\<^verbatim>\<open>headers.set(name, value)\<close>: the name is case-insensitive, the value replaces any other.\<close>

definition headers_set :: "string \<Rightarrow> string \<Rightarrow> (string \<times> string) list \<Rightarrow> (string \<times> string) list" where
  "headers_set name v hs = AList.update (map lower_char name) v hs"

definition headers_get :: "(string \<times> string) list \<Rightarrow> string \<Rightarrow> string option" where
  "headers_get hs name = map_of hs (map lower_char name)"

text \<open>\<^verbatim>\<open>Response.json(v, {status})\<close>; the status is 200 where the code gives none.\<close>

definition Response_json :: "jsval \<Rightarrow> nat \<Rightarrow> response" where
  "Response_json v st =
     \<lparr>status = st, headers = [(''content-type'', ''application/json'')], body = JsonBody v\<rparr>"

section \<open>Step 1: extracting the app id\<close>

text \<open>
  \<^verbatim>\<open>url.pathname.match(/^\/app\/([^\/]+)/)\<close>: the path starts with \<^verbatim>\<open>/app/\<close> and at least
  one character other than a slash follows; the group is the longest run of them.
\<close>

definition pathMatch :: "string \<Rightarrow> string option" where
  "pathMatch p =
     (if take 5 p = ''/app/'' \<and> takeWhile (\<lambda>c. c \<noteq> CHR ''/'') (drop 5 p) \<noteq> []
      then Some (takeWhile (\<lambda>c. c \<noteq> CHR ''/'') (drop 5 p))
      else None)"

text \<open>JavaScript's \<^verbatim>\<open>!appId\<close> on a string or null: null and the empty string are falsy.\<close>

definition falsy :: "string option \<Rightarrow> bool" where
  "falsy a = (case a of None \<Rightarrow> True | Some s \<Rightarrow> s = [])"

text \<open>
  Pattern 1, then pattern 2 when pattern 1 left \<^verbatim>\<open>appId\<close> falsy. Pattern 3 (the
  subdomain) is commented out in the source, so the host name is never read.
\<close>

definition extractAppId :: "url \<Rightarrow> string option" where
  "extractAppId u =
     (let appId = (case pathMatch (pathname u) of Some k \<Rightarrow> Some k | None \<Rightarrow> None)
      in if falsy appId then searchParams_get u ''appId'' else appId)"

text \<open>\<^verbatim>\<open>/^[a-zA-Z0-9_-]+$/.test(appId)\<close>; without the m flag, \<^verbatim>\<open>$\<close> is the end of the input.\<close>

definition is_key_char :: "char \<Rightarrow> bool" where
  "is_key_char c =
     (let n = (of_char c :: nat)
      in (97 \<le> n \<and> n \<le> 122) \<or> (65 \<le> n \<and> n \<le> 90) \<or> (48 \<le> n \<and> n \<le> 57)
         \<or> c = CHR ''_'' \<or> c = CHR ''-'')"

definition valid_app_id :: "string \<Rightarrow> bool" where
  "valid_app_id k = (k \<noteq> [] \<and> list_all is_key_char k)"

text \<open>\<^verbatim>\<open>url.pathname.replace(/^\/app\/[^\/]+/, "") || "/"\<close>.\<close>

definition strip_prefix :: "string \<Rightarrow> string" where
  "strip_prefix p =
     (let rest = (if pathMatch p = None then p else dropWhile (\<lambda>c. c \<noteq> CHR ''/'') (drop 5 p))
      in if rest = [] then ''/'' else rest)"

section \<open>The Durable Object: \<^verbatim>\<open>VibeAppContainer\<close>\<close>

text \<open>The object literal that \<^verbatim>\<open>updateLocation\<close> receives from the Worker.\<close>

record location =
  colo :: string
  country :: string
  city :: string
  region :: string
  lastUpdated :: int

text \<open>
  \<^verbatim>\<open>this.ctx.storage\<close>: the keys this class writes, each with the type of what it writes
  there; \<^verbatim>\<open>None\<close> is a key never written (\<^verbatim>\<open>get\<close> gives undefined).
\<close>

record do_storage =
  lastStarted :: "int option"
  startCount :: "int option"
  lastStopped :: "int option"
  lastError :: "(string \<times> int) option"
  totalRequests :: "int option"
  containerLocation :: "location option"
  metadata :: "(string \<times> jsval) list option"

text \<open>One Durable Object: its storage and \<^verbatim>\<open>this.ctx.container.running\<close>.\<close>

record durable_object =
  storage :: do_storage
  running :: bool

definition fresh :: durable_object where
  "fresh =
     \<lparr>storage = \<lparr>lastStarted = None, startCount = None, lastStopped = None, lastError = None,
                  totalRequests = None, containerLocation = None, metadata = None\<rparr>,
      running = False\<rparr>"

text \<open>\<^verbatim>\<open>(await this.ctx.storage.get(key)) || 0\<close> on a counter.\<close>

definition or_zero :: "int option \<Rightarrow> int" where
  "or_zero v = (case v of None \<Rightarrow> 0 | Some n \<Rightarrow> n)"

text \<open>The lifecycle hooks; \<^verbatim>\<open>now\<close> is the reading of \<^verbatim>\<open>Date.now()\<close>.\<close>

definition onStart :: "int \<Rightarrow> durable_object \<Rightarrow> durable_object" where
  "onStart now d =
     (let st1 = (storage d)\<lparr>lastStarted := Some now\<rparr>;
          st2 = st1\<lparr>startCount := Some (or_zero (startCount st1) + 1)\<rparr>
      in d\<lparr>storage := st2\<rparr>)"

definition onStop :: "int \<Rightarrow> durable_object \<Rightarrow> durable_object" where
  "onStop now d = d\<lparr>storage := (storage d)\<lparr>lastStopped := Some now\<rparr>\<rparr>"

definition onError :: "string \<Rightarrow> int \<Rightarrow> durable_object \<Rightarrow> durable_object" where
  "onError message now d = d\<lparr>storage := (storage d)\<lparr>lastError := Some (message, now)\<rparr>\<rparr>"

definition opt_num :: "int option \<Rightarrow> jsval" where
  "opt_num v = (case v of None \<Rightarrow> JUndefined | Some n \<Rightarrow> JNum n)"

definition location_json :: "location \<Rightarrow> jsval" where
  "location_json l =
     JObj [(''colo'', JStr (colo l)), (''country'', JStr (country l)), (''city'', JStr (city l)),
           (''region'', JStr (region l)), (''lastUpdated'', JNum (lastUpdated l))]"

text \<open>
  \<^verbatim>\<open>getAppStatus\<close>. \<^verbatim>\<open>name\<close> is \<^verbatim>\<open>this.ctx.id.name\<close> and \<^verbatim>\<open>doId\<close> is
  \<^verbatim>\<open>this.ctx.id.toString()\<close>. It only reads.
\<close>

definition getAppStatus :: "string \<Rightarrow> string \<Rightarrow> durable_object \<Rightarrow> jsval" where
  "getAppStatus name doId d =
     (let appId = (if name = [] then ''unknown'' else name);
          isRunning = running d;
          st = storage d
      in JObj
        [(''appId'', JStr appId),
         (''durableObject'', JObj
            [(''id'', JStr doId),
             (''idShort'', JStr (take 16 doId @ ''...'')),
             (''explanation'', JStr ''Same appId ALWAYS routes to this exact Durable Object ID'')]),
         (''container'', JObj
            [(''running'', JBool isRunning),
             (''status'', JStr (if isRunning then ''running'' else ''stopped'')),
             (''port'', JNum 8080)]),
         (''containerLocation'',
            (case containerLocation st of None \<Rightarrow> JNull | Some l \<Rightarrow> location_json l)),
         (''stats'', JObj
            [(''startCount'', JNum (or_zero (startCount st))),
             (''lastStarted'', opt_num (lastStarted st)),
             (''lastStopped'', opt_num (lastStopped st)),
             (''lastError'',
                (case lastError st of None \<Rightarrow> JUndefined
                 | Some (m, t) \<Rightarrow> JObj [(''message'', JStr m), (''timestamp'', JNum t)])),
             (''totalRequests'', JNum (or_zero (totalRequests st)))]),
         (''metadata'', JObj (case metadata st of None \<Rightarrow> [] | Some m \<Rightarrow> m))])"

definition updateLocation :: "location \<Rightarrow> durable_object \<Rightarrow> jsval \<times> durable_object" where
  "updateLocation l d =
     (let n = or_zero (totalRequests (storage d)) + 1;
          st1 = (storage d)\<lparr>totalRequests := Some n\<rparr>;
          st2 = st1\<lparr>containerLocation := Some l\<rparr>
      in (JObj [(''totalRequests'', JNum n)], d\<lparr>storage := st2\<rparr>))"

text \<open>
  \<^verbatim>\<open>setMetadata\<close>: the stored object (or \<^verbatim>\<open>{}\<close>) spread, then the argument spread, then
  \<^verbatim>\<open>updatedAt\<close>; the \<^verbatim>\<open>put\<close> is awaited before the method returns.
\<close>

definition merged_metadata :: "int \<Rightarrow> jsval \<Rightarrow> (string \<times> jsval) list option \<Rightarrow> (string \<times> jsval) list" where
  "merged_metadata now patch old =
     AList.update ''updatedAt'' (JNum now)
       (obj_assign (obj_assign [] (case old of None \<Rightarrow> [] | Some m \<Rightarrow> m)) (own_props patch))"

definition setMetadata :: "int \<Rightarrow> jsval \<Rightarrow> durable_object \<Rightarrow> jsval \<times> durable_object" where
  "setMetadata now patch d =
     (JObj [(''success'', JBool True)],
      d\<lparr>storage := (storage d)\<lparr>metadata := Some (merged_metadata now patch (metadata (storage d)))\<rparr>\<rparr>)"

subsection \<open>The platform\<close>

text \<open>
  What the class and the Worker call and the repository does not define: the namespace's
  \<^verbatim>\<open>idFromName\<close> (behind \<^verbatim>\<open>getByName\<close>), the runtime's \<^verbatim>\<open>ctx.container.destroy()\<close> and
  \<^verbatim>\<open>ctx.container.start()\<close>, and the \<^verbatim>\<open>fetch\<close> that the class inherits from
  \<^verbatim>\<open>Container\<close>. They are parameters. Each acts on the Durable Object and either returns
  or throws an error, of which the code reads the message.
\<close>

record platform =
  idFromName :: "string \<Rightarrow> string"
  container_destroy :: "durable_object \<Rightarrow> (string + unit) \<times> durable_object"
  container_start :: "durable_object \<Rightarrow> (string + unit) \<times> durable_object"
  container_fetch :: "request \<Rightarrow> durable_object \<Rightarrow> (string + response) \<times> durable_object"

text \<open>
  \<^verbatim>\<open>restart\<close>: \<^verbatim>\<open>await this.ctx.container.destroy()\<close>, then \<^verbatim>\<open>this.ctx.container.start()\<close>,
  then the result object. Nothing is read of the container's state and nothing is written
  to the storage; an error thrown by either call leaves the method there.
\<close>

definition restart :: "platform \<Rightarrow> durable_object \<Rightarrow> (string + jsval) \<times> durable_object" where
  "restart P d =
     (case container_destroy P d of
        (Inl e, d1) \<Rightarrow> (Inl e, d1)
      | (Inr _, d1) \<Rightarrow>
          (case container_start P d1 of
             (Inl e, d2) \<Rightarrow> (Inl e, d2)
           | (Inr _, d2) \<Rightarrow>
               (Inr (JObj [(''success'', JBool True), (''message'', JStr ''Container restarted'')]),
                d2)))"

section \<open>The Worker\<close>

text \<open>
  The Durable Objects of the namespace \<^verbatim>\<open>env.VIBE_APP\<close>, by id; an id that was never
  called has no object yet. A call through the stub that \<^verbatim>\<open>getByName(appId)\<close> returns
  runs on the object of \<^verbatim>\<open>idFromName(appId)\<close>, created on its first call.
\<close>

type_synonym world = "string \<rightharpoonup> durable_object"

definition the_object :: "world \<Rightarrow> string \<Rightarrow> durable_object" where
  "the_object w i = (case w i of None \<Rightarrow> fresh | Some d \<Rightarrow> d)"

definition stub_call ::
  "platform \<Rightarrow> world \<Rightarrow> string \<Rightarrow> (durable_object \<Rightarrow> 'a \<times> durable_object) \<Rightarrow> 'a \<times> world" where
  "stub_call P w appId f =
     (let i = idFromName P appId;
          (r, d') = f (the_object w i)
      in (r, w(i \<mapsto> d')))"

text \<open>The calls the Worker makes on a stub, recorded in the order it issues them.\<close>

datatype call =
    Call_getAppStatus
  | Call_restart
  | Call_setMetadata jsval
  | Call_updateLocation location
  | Call_fetch request

text \<open>What one run of the handler leaves: the response, the objects, the calls it made.\<close>

record outcome =
  out_response :: response
  out_world :: world
  out_calls :: "(string \<times> call) list"

definition direct :: "world \<Rightarrow> response \<Rightarrow> outcome" where
  "direct w r = \<lparr>out_response = r, out_world = w, out_calls = []\<rparr>"

definition ui_response :: "string \<Rightarrow> response" where
  "ui_response html =
     \<lparr>status = 200, headers = [(''content-type'', ''text/html; charset=utf-8'')],
      body = TextBody html\<rparr>"

definition health_body :: jsval where
  "health_body =
     JObj [(''status'', JStr ''healthy''),
           (''platform'', JStr ''Multi-Tenant Vibe App Platform''),
           (''version'', JStr ''1.0.0''),
           (''usage'', JObj [(''pathRouting'', JStr ''/app/{appId}/your-path''),
                             (''queryRouting'', JStr ''/?appId={appId}''),
                             (''statusEndpoint'', JStr ''/app/{appId}/_status'')])]"

definition api_body :: jsval where
  "api_body =
     JObj [(''status'', JStr ''healthy''),
           (''platform'', JStr ''Multi-Tenant Vibe App Platform''),
           (''version'', JStr ''1.0.0''),
           (''usage'', JObj [(''ui'', JStr ''/''),
                             (''pathRouting'', JStr ''/app/{appId}/your-path''),
                             (''queryRouting'', JStr ''/?appId={appId}''),
                             (''statusEndpoint'', JStr ''/app/{appId}/_status'')])]"

definition missing_body :: jsval where
  "missing_body =
     JObj [(''error'', JStr ''Missing App ID''),
           (''message'', JStr ''Please provide an appId to route to your application''),
           (''examples'', JArr [JStr ''GET /app/my-app-123/'', JStr ''GET /?appId=my-app-123''])]"

definition invalid_body :: "string \<Rightarrow> jsval" where
  "invalid_body appId =
     JObj [(''error'', JStr ''Invalid App ID''),
           (''message'',
              JStr ''App ID must contain only letters, numbers, hyphens, and underscores''),
           (''provided'', JStr appId)]"

text \<open>The \<^verbatim>\<open>catch\<close> of the handler: the message of the error, never its stack.\<close>

definition error_response :: "string \<Rightarrow> string \<Rightarrow> response" where
  "error_response message appId =
     Response_json
       (JObj [(''error'', JStr ''Container Error''), (''message'', JStr message),
              (''appId'', JStr appId)])
       500"

text \<open>\<^verbatim>\<open>request.cf?.colo || "unknown"\<close> and its three siblings.\<close>

definition cf_or_unknown :: "request \<Rightarrow> (cf_props \<Rightarrow> string option) \<Rightarrow> string" where
  "cf_or_unknown request f =
     (case req_cf request of
        None \<Rightarrow> ''unknown''
      | Some c \<Rightarrow> (case f c of None \<Rightarrow> ''unknown'' | Some s \<Rightarrow> if s = [] then ''unknown'' else s))"

definition requestLocation :: "request \<Rightarrow> jsval" where
  "requestLocation request =
     JObj [(''colo'', JStr (cf_or_unknown request cf_colo)),
           (''country'', JStr (cf_or_unknown request cf_country)),
           (''city'', JStr (cf_or_unknown request cf_city)),
           (''region'', JStr (cf_or_unknown request cf_region))]"

subsection \<open>Step 6: forwarding\<close>

text \<open>
  The request sent to the container: the path without the \<^verbatim>\<open>/app/{appId}\<close> prefix, the
  method, headers and body of the inbound request, and six headers set on top.
\<close>

definition containerRequest :: "request \<Rightarrow> string \<Rightarrow> string \<Rightarrow> request" where
  "containerRequest request appId appPath =
     request
       \<lparr>req_url := (req_url request)\<lparr>pathname := appPath\<rparr>,
        req_headers :=
          headers_set ''X-CF-Region'' (cf_or_unknown request cf_region)
            (headers_set ''X-CF-City'' (cf_or_unknown request cf_city)
              (headers_set ''X-CF-Country'' (cf_or_unknown request cf_country)
                (headers_set ''X-CF-Colo'' (cf_or_unknown request cf_colo)
                  (headers_set ''X-Original-URL'' (href (req_url request))
                    (headers_set ''X-App-Id'' appId (req_headers request))))))\<rparr>"

definition request_location :: "request \<Rightarrow> int \<Rightarrow> location" where
  "request_location request now =
     \<lparr>colo = cf_or_unknown request cf_colo, country = cf_or_unknown request cf_country,
      city = cf_or_unknown request cf_city, region = cf_or_unknown request cf_region,
      lastUpdated = now\<rparr>"

text \<open>
  \<^verbatim>\<open>updateLocation\<close> is issued first, under \<^verbatim>\<open>ctx.waitUntil\<close>: its result and its failure
  are not looked at. Then \<^verbatim>\<open>appContainer.fetch\<close> is awaited, once. Its response goes back
  with \<^verbatim>\<open>X-Served-By\<close> set; its error goes to the \<^verbatim>\<open>catch\<close>.
\<close>

definition forward :: "platform \<Rightarrow> int \<Rightarrow> world \<Rightarrow> request \<Rightarrow> string \<Rightarrow> string \<Rightarrow> outcome" where
  "forward P now w request appId appPath =
     (let creq = containerRequest request appId appPath;
          loc = request_location request now;
          (ignored, w1) = stub_call P w appId (updateLocation loc);
          (r, w2) = stub_call P w1 appId (container_fetch P creq);
          cs = [(appId, Call_updateLocation loc), (appId, Call_fetch creq)]
      in case r of
           Inl e \<Rightarrow> \<lparr>out_response = error_response e appId, out_world = w2, out_calls = cs\<rparr>
         | Inr resp \<Rightarrow>
             \<lparr>out_response =
                resp\<lparr>headers := headers_set ''X-Served-By'' (''vibe-app-'' @ appId) (headers resp)\<rparr>,
              out_world = w2, out_calls = cs\<rparr>)"

subsection \<open>Steps 4 and 5: the stub and the management endpoints\<close>

text \<open>
  The body of the \<^verbatim>\<open>try\<close>. The two method tests under \<^verbatim>\<open>/_metadata\<close> are nested in the
  source and fall through to step 6 when neither holds; here they are two branches of the
  chain, which is the same.
\<close>

definition dispatch :: "platform \<Rightarrow> int \<Rightarrow> world \<Rightarrow> request \<Rightarrow> string \<Rightarrow> outcome" where
  "dispatch P now w request appId =
     (let appPath = strip_prefix (pathname (req_url request));
          doId = idFromName P appId
      in
      if appPath = ''/_status'' then
        (let (st, w1) = stub_call P w appId (\<lambda>d. (getAppStatus appId doId d, d))
         in \<lparr>out_response =
               Response_json
                 (JObj (AList.update ''requestLocation'' (requestLocation request) (own_props st)))
                 200,
             out_world = w1, out_calls = [(appId, Call_getAppStatus)]\<rparr>)
      else if appPath = ''/_restart'' \<and> req_method request = ''POST'' then
        (case stub_call P w appId (restart P) of
           (Inl e, w1) \<Rightarrow>
             \<lparr>out_response = error_response e appId, out_world = w1,
              out_calls = [(appId, Call_restart)]\<rparr>
         | (Inr result, w1) \<Rightarrow>
             \<lparr>out_response = Response_json result 200, out_world = w1,
              out_calls = [(appId, Call_restart)]\<rparr>)
      else if appPath = ''/_metadata'' \<and> req_method request = ''GET'' then
        (let (st, w1) = stub_call P w appId (\<lambda>d. (getAppStatus appId doId d, d))
         in \<lparr>out_response = Response_json (obj_get st ''metadata'') 200,
             out_world = w1, out_calls = [(appId, Call_getAppStatus)]\<rparr>)
      else if appPath = ''/_metadata''
              \<and> (req_method request = ''POST'' \<or> req_method request = ''PUT'') then
        (case req_json request of
           Inl e \<Rightarrow> \<lparr>out_response = error_response e appId, out_world = w, out_calls = []\<rparr>
         | Inr md \<Rightarrow>
             (let (result, w1) = stub_call P w appId (setMetadata now md)
              in \<lparr>out_response = Response_json result 200, out_world = w1,
                  out_calls = [(appId, Call_setMetadata md)]\<rparr>))
      else forward P now w request appId appPath)"

subsection \<open>The handler\<close>

text \<open>
  \<^verbatim>\<open>fetch(request, env, ctx)\<close>. \<^verbatim>\<open>getUIHTML\<close> is the page template of the source, a
  template literal whose one interpolation is the base URL; its text plays no part here
  and it is a parameter. Step 1 runs first, step 2 answers the platform paths without
  looking at \<^verbatim>\<open>appId\<close>, step 3 validates, and then comes the \<^verbatim>\<open>try\<close>.
\<close>

definition fetch :: "(string \<Rightarrow> string) \<Rightarrow> platform \<Rightarrow> int \<Rightarrow> world \<Rightarrow> request \<Rightarrow> outcome" where
  "fetch getUIHTML P now w request =
     (let u = req_url request;
          appId = extractAppId u
      in
      if pathname u = ''/'' \<or> pathname u = ''/ui'' then
        direct w (ui_response (getUIHTML (protocol u @ ''//'' @ host u)))
      else if pathname u = ''/health'' then direct w (Response_json health_body 200)
      else if pathname u = ''/api'' then direct w (Response_json api_body 200)
      else
        (case appId of
           None \<Rightarrow> direct w (Response_json missing_body 400)
         | Some k \<Rightarrow>
             if k = [] then direct w (Response_json missing_body 400)
             else if \<not> valid_app_id k then direct w (Response_json (invalid_body k) 400)
             else dispatch P now w request k))"

section \<open>Vocabulary of the properties\<close>

text \<open>The four paths that step 2 answers itself.\<close>

definition platform_path :: "string \<Rightarrow> bool" where
  "platform_path p = (p = ''/'' \<or> p = ''/ui'' \<or> p = ''/health'' \<or> p = ''/api'')"

text \<open>The path and method pairs that step 5 answers; every other pair reaches step 6.\<close>

definition management_route :: "string \<Rightarrow> string \<Rightarrow> bool" where
  "management_route appPath m =
     (appPath = ''/_status''
      \<or> (appPath = ''/_restart'' \<and> m = ''POST'')
      \<or> (appPath = ''/_metadata'' \<and> (m = ''GET'' \<or> m = ''POST'' \<or> m = ''PUT'')))"

fun is_fetch :: "call \<Rightarrow> bool" where
  "is_fetch (Call_fetch r) = True"
| "is_fetch _ = False"


text \<open>The object behind an app id after a run of the handler.\<close>

definition object_after :: "platform \<Rightarrow> outcome \<Rightarrow> string \<Rightarrow> durable_object" where
  "object_after P out appId = the_object (out_world out) (idFromName P appId)"

subsection \<open>Concrete inputs\<close>

text \<open>
  A platform whose container primitives do what their names say and nothing else:
  \<^verbatim>\<open>destroy\<close> leaves the container not running, \<^verbatim>\<open>start\<close> leaves it running, neither
  touches the storage, and \<^verbatim>\<open>fetch\<close> answers from a running container.
\<close>

definition sample_reply :: response where
  "sample_reply =
     \<lparr>status = 201, headers = [(''content-type'', ''text/plain''), (''x-app-id'', ''my-app'')],
      body = TextBody ''created''\<rparr>"

definition plain_platform :: platform where
  "plain_platform =
     \<lparr>idFromName = (\<lambda>name. ''do-'' @ name),
      container_destroy = (\<lambda>d. (Inr (), d\<lparr>running := False\<rparr>)),
      container_start = (\<lambda>d. (Inr (), d\<lparr>running := True\<rparr>)),
      container_fetch = (\<lambda>r d. (Inr sample_reply, d\<lparr>running := True\<rparr>))\<rparr>"

text \<open>The same platform with a container that cannot be reached.\<close>

definition unreachable_platform :: platform where
  "unreachable_platform =
     plain_platform\<lparr>container_fetch := (\<lambda>r d. (Inl ''Network connection lost.'', d))\<rparr>"

definition sample_ui :: "string \<Rightarrow> string" where
  "sample_ui baseUrl = ''<!DOCTYPE html>'' @ baseUrl"

definition sample_request :: "string \<Rightarrow> string \<Rightarrow> string \<Rightarrow> (string \<times> string) list \<Rightarrow> request" where
  "sample_request m p s q =
     \<lparr>req_url = \<lparr>protocol = ''https:'', host = ''platform.dev'', hostname = ''platform.dev'',
                 pathname = p, search = s, searchParams = q\<rparr>,
      req_method = m, req_headers = [(''accept'', ''*/*'')], req_body = [],
      req_json = Inl ''Unexpected end of JSON input'', req_cf = None\<rparr>"

text \<open>An object that has been started once and whose container runs.\<close>

definition started_once :: durable_object where
  "started_once =
     fresh\<lparr>storage := (storage fresh)\<lparr>lastStarted := Some 1700000000000, startCount := Some 1\<rparr>,
           running := True\<rparr>"

definition sample_world :: world where
  "sample_world = [''do-my-app'' \<mapsto> started_once]"


text \<open>
  A platform that honours the hooks: \<^verbatim>\<open>destroy\<close> stops a running container and runs
  \<^verbatim>\<open>onStop\<close>, \<^verbatim>\<open>start\<close> starts the container and runs \<^verbatim>\<open>onStart\<close>, and \<^verbatim>\<open>fetch\<close> starts
  a container that does not run, in the same way, before the instance answers.
\<close>

definition wake :: "int \<Rightarrow> durable_object \<Rightarrow> durable_object" where
  "wake t d = (if running d then d else onStart t (d\<lparr>running := True\<rparr>))"

definition hooked_platform :: platform where
  "hooked_platform =
     \<lparr>idFromName = (\<lambda>name. ''do-'' @ name),
      container_destroy =
        (\<lambda>d. (Inr (), if running d then onStop 1700000000200 (d\<lparr>running := False\<rparr>)
                       else d\<lparr>running := False\<rparr>)),
      container_start = (\<lambda>d. (Inr (), onStart 1700000000300 (d\<lparr>running := True\<rparr>))),
      container_fetch = (\<lambda>r d. (Inr sample_reply, wake 1700000000100 d))\<rparr>"

text \<open>An instance whose own response carries an \<^verbatim>\<open>X-Served-By\<close> header.\<close>

definition branded_reply :: response where
  "branded_reply =
     \<lparr>status = 200,
      headers = [(''content-type'', ''text/plain''), (''x-served-by'', ''tenant-edge-7'')],
      body = TextBody ''ok''\<rparr>"

definition branded_platform :: platform where
  "branded_platform =
     hooked_platform\<lparr>container_fetch := (\<lambda>r d. (Inr branded_reply, wake 1700000000100 d))\<rparr>"

text \<open>An instance that answers with the method and the path of the request it received.\<close>

definition echo_reply :: "request \<Rightarrow> response" where
  "echo_reply r =
     \<lparr>status = 200, headers = [(''content-type'', ''text/plain'')],
      body = TextBody (req_method r @ '' '' @ pathname (req_url r))\<rparr>"

definition echo_platform :: platform where
  "echo_platform =
     hooked_platform\<lparr>container_fetch := (\<lambda>r d. (Inr (echo_reply r), wake 1700000000100 d))\<rparr>"

section \<open>Auxiliary facts\<close>

lemma takeWhile_segment:
  assumes "CHR ''/'' \<notin> set k" and "rest = [] \<or> hd rest = CHR ''/''"
  shows "takeWhile (\<lambda>c. c \<noteq> CHR ''/'') (k @ rest) = k"
proof (cases rest)
  case Nil
  with assms(1) show ?thesis by auto
next
  case (Cons c cs)
  with assms(2) have "c = CHR ''/''" by simp
  with Cons assms(1) show ?thesis by (auto simp: takeWhile_tail)
qed

lemma pathMatch_path_form:
  assumes "k \<noteq> []" and "CHR ''/'' \<notin> set k" and "rest = [] \<or> hd rest = CHR ''/''"
  shows "pathMatch (''/app/'' @ k @ rest) = Some k"
  using assms(1) takeWhile_segment [OF assms(2,3)] by (simp add: pathMatch_def)

lemma platform_path_no_match: "platform_path p \<Longrightarrow> pathMatch p = None"
  unfolding platform_path_def by (auto simp: pathMatch_def)

lemma platform_path_strip: "platform_path p \<Longrightarrow> strip_prefix p = p"
  using platform_path_no_match [of p] unfolding platform_path_def
  by (auto simp: strip_prefix_def)

lemma management_not_platform:
  "strip_prefix p = ''/_status'' \<or> strip_prefix p = ''/_restart'' \<or> strip_prefix p = ''/_metadata''
     \<Longrightarrow> \<not> platform_path p"
  using platform_path_strip [of p] unfolding platform_path_def by auto

lemma valid_app_id_nonempty: "valid_app_id k \<Longrightarrow> k \<noteq> []"
  by (simp add: valid_app_id_def)

lemma fetch_dispatch:
  assumes "\<not> platform_path (pathname (req_url request))"
    and "extractAppId (req_url request) = Some k"
    and "valid_app_id k"
  shows "fetch ui P now w request = dispatch P now w request k"
  using assms valid_app_id_nonempty [OF assms(3)]
  by (simp add: fetch_def platform_path_def Let_def)

lemma fetch_invalid:
  assumes "\<not> platform_path (pathname (req_url request))"
    and "extractAppId (req_url request) = Some k"
    and "k \<noteq> []"
    and "\<not> valid_app_id k"
  shows "fetch ui P now w request = direct w (Response_json (invalid_body k) 400)"
  using assms by (simp add: fetch_def platform_path_def Let_def)

lemma dispatch_forward:
  assumes "\<not> management_route (strip_prefix (pathname (req_url request))) (req_method request)"
  shows "dispatch P now w request k
           = forward P now w request k (strip_prefix (pathname (req_url request)))"
  using assms by (auto simp: dispatch_def management_route_def Let_def)

lemma the_object_upd: "the_object (w(i \<mapsto> d)) i = d"
  by (simp add: the_object_def)

lemma forward_calls:
  "out_calls (forward P now w request k appPath)
     = [(k, Call_updateLocation (request_location request now)),
        (k, Call_fetch (containerRequest request k appPath))]"
  by (simp add: forward_def Let_def split: prod.splits sum.splits)

lemma forward_result:
  assumes "container_fetch P (containerRequest request k appPath)
             (snd (updateLocation (request_location request now) (the_object w (idFromName P k))))
           = (r, d2)"
  shows "out_world (forward P now w request k appPath) = w(idFromName P k \<mapsto> d2)"
    and "out_response (forward P now w request k appPath)
           = (case r of Inl e \<Rightarrow> error_response e k
              | Inr resp \<Rightarrow>
                  resp\<lparr>headers := headers_set ''X-Served-By'' (''vibe-app-'' @ k) (headers resp)\<rparr>)"
  using assms
  by (auto simp: forward_def Let_def stub_call_def the_object_upd split: prod.splits sum.splits)


lemma map_of_obj_assign:
  "distinct (map fst props) \<Longrightarrow> map_of (obj_assign base props) = map_of base ++ map_of props"
proof (induction props arbitrary: base)
  case Nil
  show ?case by (simp add: obj_assign_def)
next
  case (Cons p ps)
  obtain k v where p: "p = (k, v)" by (cases p)
  from Cons.prems p have fresh_k: "map_of ps k = None" and d: "distinct (map fst ps)"
    by (auto simp: map_of_eq_None_iff)
  have "map_of (obj_assign base (p # ps)) = map_of (obj_assign (AList.update k v base) ps)"
    by (simp add: obj_assign_def p)
  also have "\<dots> = (map_of base)(k \<mapsto> v) ++ map_of ps"
    by (simp only: Cons.IH [OF d] update_conv')
  also have "\<dots> = map_of base ++ map_of (p # ps)"
    using fresh_k by (auto simp: p map_add_def fun_eq_iff split: option.splits)
  finally show ?case .
qed

lemma distinct_obj_assign:
  "distinct (map fst base) \<Longrightarrow> distinct (map fst (obj_assign base props))"
  by (induction props arbitrary: base) (auto simp: obj_assign_def distinct_update)

lemma getAppStatus_metadata:
  "obj_get (getAppStatus name doId d) ''metadata''
     = JObj (case metadata (storage d) of None \<Rightarrow> [] | Some m \<Rightarrow> m)"
  by (simp add: getAppStatus_def obj_get_def Let_def)

section \<open>The order of the extraction rules\<close>

text \<open>
  Claim C8. The candidate key is the path segment after \<^verbatim>\<open>/app/\<close> whenever there is one,
  whatever the query says; it is never empty. Without such a segment it is the first
  \<^verbatim>\<open>appId\<close> query parameter. The host name plays no part: the subdomain rule is disabled.
\<close>

theorem extractAppId_order:
  "(k \<noteq> [] \<and> CHR ''/'' \<notin> set k \<and> (rest = [] \<or> hd rest = CHR ''/'')
      \<longrightarrow> extractAppId (u\<lparr>pathname := ''/app/'' @ k @ rest\<rparr>) = Some k)
   \<and> (pathMatch (pathname u) = None \<longrightarrow> extractAppId u = searchParams_get u ''appId'')
   \<and> extractAppId (u\<lparr>hostname := h1, host := h2\<rparr>) = extractAppId u"
proof (intro conjI impI)
  assume "k \<noteq> [] \<and> CHR ''/'' \<notin> set k \<and> (rest = [] \<or> hd rest = CHR ''/'')"
  then have "pathMatch (''/app/'' @ k @ rest) = Some k" and "k \<noteq> []"
    using pathMatch_path_form by blast+
  then show "extractAppId (u\<lparr>pathname := ''/app/'' @ k @ rest\<rparr>) = Some k"
    unfolding extractAppId_def falsy_def by (simp del: append.simps)
next
  assume "pathMatch (pathname u) = None"
  then show "extractAppId u = searchParams_get u ''appId''"
    by (simp add: extractAppId_def falsy_def)
next
  show "extractAppId (u\<lparr>hostname := h1, host := h2\<rparr>) = extractAppId u"
    by (simp add: extractAppId_def searchParams_get_def Let_def)
qed

theorem extractAppId_order_witness:
  "extractAppId (req_url (sample_request ''GET'' ''/app/path-key/api'' ''?appId=query-key''
                    [(''appId'', ''query-key'')])) = Some ''path-key''
   \<and> extractAppId (req_url (sample_request ''GET'' ''/dashboard'' ''?appId=query-key''
                    [(''appId'', ''query-key'')])) = Some ''query-key''"
proof -
  let ?u = "req_url (sample_request ''GET'' ''/dashboard'' ''?appId=query-key''
                    [(''appId'', ''query-key'')])"
  have k: "''path-key'' \<noteq> [] \<and> CHR ''/'' \<notin> set ''path-key''
             \<and> (''/api'' = [] \<or> hd ''/api'' = CHR ''/'')"
    by simp
  have n: "pathMatch (pathname ?u) = None"
    by (simp add: pathMatch_def sample_request_def)
  from extractAppId_order [of "''path-key''" "''/api''" ?u] k n
  show ?thesis by (simp add: searchParams_get_def sample_request_def)
qed

section \<open>Platform paths and the validation of the key\<close>

text \<open>
  Claim C3, evaluated at \<^verbatim>\<open>GET /?appId=my-cool-app\<close>, the query form that the comments of
  step 1, the usage text of the health endpoint and the examples of the 400 response all
  give. The key is extracted and is valid, and yet the request is answered by the page of
  the root path: no stub is obtained and no call reaches the tenant's object.
\<close>

theorem root_query_form_answered_by_ui:
  "extractAppId (req_url (sample_request ''GET'' ''/'' ''?appId=my-cool-app''
                   [(''appId'', ''my-cool-app'')])) = Some ''my-cool-app''
   \<and> valid_app_id ''my-cool-app''
   \<and> fetch ui P now w (sample_request ''GET'' ''/'' ''?appId=my-cool-app''
                         [(''appId'', ''my-cool-app'')])
       = \<lparr>out_response = ui_response (ui ''https://platform.dev''), out_world = w, out_calls = []\<rparr>"
  by (simp add: fetch_def extractAppId_def pathMatch_def falsy_def searchParams_get_def
      sample_request_def valid_app_id_def is_key_char_def direct_def Let_def)

text \<open>
  Claim C4 as stated, for every request whose candidate key is malformed, fails on a
  platform path: \<^verbatim>\<open>GET /health?appId=bad%20id!\<close> carries the key \<^verbatim>\<open>bad id!\<close> and is
  answered 200 by the health check, which step 2 serves before step 3 looks at the key.
\<close>

theorem invalid_key_on_health_path:
  "extractAppId (req_url (sample_request ''GET'' ''/health'' ''?appId=bad%20id!''
                   [(''appId'', ''bad id!'')])) = Some ''bad id!''
   \<and> \<not> valid_app_id ''bad id!''
   \<and> out_response (fetch sample_ui plain_platform 0 Map.empty
        (sample_request ''GET'' ''/health'' ''?appId=bad%20id!'' [(''appId'', ''bad id!'')]))
       = Response_json health_body 200"
  by (simp add: fetch_def extractAppId_def pathMatch_def falsy_def searchParams_get_def
      sample_request_def valid_app_id_def is_key_char_def direct_def Let_def)

text \<open>
  Claim C4, amended: for every request whose path is not one of the four platform paths
  and whose candidate key is not empty and does not match \<^verbatim>\<open>^[a-zA-Z0-9_-]+$\<close>, the
  response is 400 with the error \<^verbatim>\<open>Invalid App ID\<close> and the rejected value under
  \<^verbatim>\<open>provided\<close>; no object is created or changed and no call is made on any stub.
\<close>

theorem invalid_app_id_rejected:
  assumes "\<not> platform_path (pathname (req_url request))"
    and "extractAppId (req_url request) = Some k"
    and "k \<noteq> []"
    and "\<not> valid_app_id k"
  shows "out_response (fetch ui P now w request)
           = Response_json
               (JObj [(''error'', JStr ''Invalid App ID''),
                      (''message'',
                         JStr ''App ID must contain only letters, numbers, hyphens, and underscores''),
                      (''provided'', JStr k)])
               400
         \<and> status (out_response (fetch ui P now w request)) = 400
         \<and> out_world (fetch ui P now w request) = w
         \<and> out_calls (fetch ui P now w request) = []"
  using fetch_invalid [OF assms]
  by (simp add: direct_def invalid_body_def Response_json_def)

theorem invalid_app_id_rejected_witness:
  "status (out_response (fetch sample_ui plain_platform 0 sample_world
       (sample_request ''GET'' ''/dashboard'' ''?appId=bad%20id!'' [(''appId'', ''bad id!'')]))) = 400
   \<and> body (out_response (fetch sample_ui plain_platform 0 sample_world
       (sample_request ''GET'' ''/dashboard'' ''?appId=bad%20id!'' [(''appId'', ''bad id!'')])))
       = JsonBody (invalid_body ''bad id!'')
   \<and> out_world (fetch sample_ui plain_platform 0 sample_world
       (sample_request ''GET'' ''/dashboard'' ''?appId=bad%20id!'' [(''appId'', ''bad id!'')]))
       = sample_world
   \<and> out_calls (fetch sample_ui plain_platform 0 sample_world
       (sample_request ''GET'' ''/dashboard'' ''?appId=bad%20id!'' [(''appId'', ''bad id!'')]))
       = []"
proof -
  let ?r = "sample_request ''GET'' ''/dashboard'' ''?appId=bad%20id!'' [(''appId'', ''bad id!'')]"
  have 1: "\<not> platform_path (pathname (req_url ?r))"
    by (simp add: platform_path_def sample_request_def)
  have 2: "extractAppId (req_url ?r) = Some ''bad id!''"
    by (simp add: extractAppId_def pathMatch_def falsy_def searchParams_get_def sample_request_def)
  have 3: "''bad id!'' \<noteq> []" by simp
  have 4: "\<not> valid_app_id ''bad id!''" by (simp add: valid_app_id_def is_key_char_def)
  from invalid_app_id_rejected [OF 1 2 3 4, of sample_ui plain_platform 0 sample_world]
  show ?thesis by (simp add: invalid_body_def Response_json_def)
qed

section \<open>Forwarding: failure and success\<close>

lemma served_by_lower: "map lower_char ''X-Served-By'' = ''x-served-by''"
  by code_simp

lemma fetch_forward:
  assumes "\<not> platform_path (pathname (req_url request))"
    and "extractAppId (req_url request) = Some k"
    and "valid_app_id k"
    and "\<not> management_route (strip_prefix (pathname (req_url request))) (req_method request)"
  shows "fetch ui P now w request
           = forward P now w request k (strip_prefix (pathname (req_url request)))"
  using fetch_dispatch [OF assms(1-3)] dispatch_forward [OF assms(4)] by simp

text \<open>
  Claim C5 as stated fails: when the container's fetch throws, the handler has called it
  once and does not call it again, and the caller gets 500 with the error
  \<^verbatim>\<open>Container Error\<close>, not 502.
\<close>

theorem transport_failure_single_attempt_500:
  "status (out_response (fetch sample_ui unreachable_platform 0 sample_world
       (sample_request ''GET'' ''/app/my-app/api/data'' [] []))) = 500
   \<and> out_response (fetch sample_ui unreachable_platform 0 sample_world
       (sample_request ''GET'' ''/app/my-app/api/data'' [] []))
       = error_response ''Network connection lost.'' ''my-app''
   \<and> length (filter is_fetch (map snd (out_calls (fetch sample_ui unreachable_platform 0 sample_world
       (sample_request ''GET'' ''/app/my-app/api/data'' [] []))))) = 1"
proof -
  let ?r = "sample_request ''GET'' ''/app/my-app/api/data'' [] []"
  have 1: "\<not> platform_path (pathname (req_url ?r))"
    by (simp add: platform_path_def sample_request_def)
  have 2: "extractAppId (req_url ?r) = Some ''my-app''"
    by (simp add: extractAppId_def pathMatch_def falsy_def sample_request_def)
  have 3: "valid_app_id ''my-app''" by (simp add: valid_app_id_def is_key_char_def)
  have 4: "strip_prefix (pathname (req_url ?r)) = ''/api/data''"
    by (simp add: strip_prefix_def pathMatch_def sample_request_def)
  have 5: "\<not> management_route (strip_prefix (pathname (req_url ?r))) (req_method ?r)"
    unfolding 4 by (simp add: management_route_def)
  have f: "fetch sample_ui unreachable_platform 0 sample_world ?r
             = forward unreachable_platform 0 sample_world ?r ''my-app'' ''/api/data''"
    using fetch_forward [OF 1 2 3 5] unfolding 4 .
  have c: "container_fetch unreachable_platform (containerRequest ?r ''my-app'' ''/api/data'')
             (snd (updateLocation (request_location ?r 0)
                (the_object sample_world (idFromName unreachable_platform ''my-app''))))
           = (Inl ''Network connection lost.'',
              snd (updateLocation (request_location ?r 0)
                (the_object sample_world (idFromName unreachable_platform ''my-app''))))"
    by (simp add: unreachable_platform_def)
  show ?thesis
    unfolding f forward_calls forward_result(2) [OF c]
    by (simp add: error_response_def Response_json_def)
qed

text \<open>
  Claim C5, amended: for every forwarded request, an error thrown by the fetch on the
  instance is not retried by the Worker: exactly one fetch is issued, and the caller
  receives HTTP 500 with the error \<^verbatim>\<open>Container Error\<close>, the message of the error and the
  app id. The Worker writes nothing on the error path: the object is as the location
  update and that one fetch left it.
\<close>

theorem transport_failure_surfaces_500:
  assumes "\<not> platform_path (pathname (req_url request))"
    and "extractAppId (req_url request) = Some k"
    and "valid_app_id k"
    and "\<not> management_route (strip_prefix (pathname (req_url request))) (req_method request)"
    and "container_fetch P
           (containerRequest request k (strip_prefix (pathname (req_url request))))
           (snd (updateLocation (request_location request now) (the_object w (idFromName P k))))
         = (Inl e, d2)"
  shows "out_response (fetch ui P now w request)
           = Response_json
               (JObj [(''error'', JStr ''Container Error''), (''message'', JStr e),
                      (''appId'', JStr k)])
               500
         \<and> status (out_response (fetch ui P now w request)) = 500
         \<and> filter is_fetch (map snd (out_calls (fetch ui P now w request)))
             = [Call_fetch (containerRequest request k (strip_prefix (pathname (req_url request))))]
         \<and> out_world (fetch ui P now w request) = w(idFromName P k \<mapsto> d2)"
  unfolding fetch_forward [OF assms(1-4)] forward_calls
    forward_result(1) [OF assms(5)] forward_result(2) [OF assms(5)]
  by (simp add: error_response_def Response_json_def)


theorem transport_failure_surfaces_500_witness:
  "status (out_response (fetch sample_ui unreachable_platform 5 sample_world
       (sample_request ''GET'' ''/app/my-app/api/data'' [] []))) = 500
   \<and> filter is_fetch (map snd (out_calls (fetch sample_ui unreachable_platform 5 sample_world
       (sample_request ''GET'' ''/app/my-app/api/data'' [] []))))
       = [Call_fetch (containerRequest (sample_request ''GET'' ''/app/my-app/api/data'' [] [])
                        ''my-app'' ''/api/data'')]
   \<and> lastError (storage (object_after unreachable_platform
         (fetch sample_ui unreachable_platform 5 sample_world
            (sample_request ''GET'' ''/app/my-app/api/data'' [] [])) ''my-app'')) = None
   \<and> running (object_after unreachable_platform
         (fetch sample_ui unreachable_platform 5 sample_world
            (sample_request ''GET'' ''/app/my-app/api/data'' [] [])) ''my-app'')"
proof -
  let ?r = "sample_request ''GET'' ''/app/my-app/api/data'' [] []"
  let ?d = "snd (updateLocation (request_location ?r 5)
                (the_object sample_world (idFromName unreachable_platform ''my-app'')))"
  have 1: "\<not> platform_path (pathname (req_url ?r))"
    by (simp add: platform_path_def sample_request_def)
  have 2: "extractAppId (req_url ?r) = Some ''my-app''"
    by (simp add: extractAppId_def pathMatch_def falsy_def sample_request_def)
  have 3: "valid_app_id ''my-app''" by (simp add: valid_app_id_def is_key_char_def)
  have 4: "strip_prefix (pathname (req_url ?r)) = ''/api/data''"
    by (simp add: strip_prefix_def pathMatch_def sample_request_def)
  have 5: "\<not> management_route (strip_prefix (pathname (req_url ?r))) (req_method ?r)"
    unfolding 4 by (simp add: management_route_def)
  have c: "container_fetch unreachable_platform
             (containerRequest ?r ''my-app'' (strip_prefix (pathname (req_url ?r)))) ?d
           = (Inl ''Network connection lost.'', ?d)"
    by (simp add: unreachable_platform_def)
  have d: "lastError (storage ?d) = None \<and> running ?d"
    by (simp add: updateLocation_def Let_def the_object_def sample_world_def started_once_def
        fresh_def unreachable_platform_def plain_platform_def)
  from transport_failure_surfaces_500 [OF 1 2 3 5 c, of sample_ui] d
  show ?thesis
    unfolding 4 by (simp add: object_after_def the_object_def Response_json_def)
qed

lemma headers_set_served_by:
  "headers_set ''X-Served-By'' v hs = AList.update ''x-served-by'' v hs"
  by (simp only: headers_set_def served_by_lower)

lemma update_absent: "map_of al k = None \<Longrightarrow> AList.update k v al = al @ [(k, v)]"
  by (induct al) (auto split: if_splits)

lemma update_present_keys:
  "map_of al k \<noteq> None \<Longrightarrow> map fst (AList.update k v al) = map fst al"
  by (simp add: update_keys map_of_eq_None_iff)

lemma cold_requests:
  "extractAppId (req_url (sample_request m ''/app/my-app/api/data'' [] [])) = Some ''my-app''"
  "strip_prefix (pathname (req_url (sample_request m ''/app/my-app/api/data'' [] []))) = ''/api/data''"
  "\<not> platform_path (pathname (req_url (sample_request m ''/app/my-app/api/data'' [] [])))"
  "\<not> management_route ''/api/data'' m'"
  by (simp_all add: extractAppId_def pathMatch_def falsy_def sample_request_def strip_prefix_def
      platform_path_def management_route_def)

lemma my_app_valid: "valid_app_id ''my-app''"
  by (simp add: valid_app_id_def is_key_char_def)

text \<open>
  Claim C7 as stated fails when the instance's own response carries \<^verbatim>\<open>X-Served-By\<close>: the
  handler's \<^verbatim>\<open>headers.set\<close> replaces the instance's value, so that header is not relayed
  unchanged and no header is added.
\<close>

theorem instance_served_by_overwritten:
  "headers_get (headers branded_reply) ''X-Served-By'' = Some ''tenant-edge-7''
   \<and> fst (container_fetch branded_platform
             (containerRequest (sample_request ''GET'' ''/app/my-app/api/data'' [] [])
                ''my-app'' ''/api/data'')
             (snd (updateLocation
                     (request_location (sample_request ''GET'' ''/app/my-app/api/data'' [] []) 5)
                     (the_object Map.empty (idFromName branded_platform ''my-app'')))))
       = Inr branded_reply
   \<and> headers_get (headers (out_response (fetch sample_ui branded_platform 5 Map.empty
         (sample_request ''GET'' ''/app/my-app/api/data'' [] [])))) ''X-Served-By''
       = Some ''vibe-app-my-app''
   \<and> length (headers (out_response (fetch sample_ui branded_platform 5 Map.empty
         (sample_request ''GET'' ''/app/my-app/api/data'' [] []))))
       = length (headers branded_reply)"
proof -
  let ?r = "sample_request ''GET'' ''/app/my-app/api/data'' [] []"
  let ?d = "snd (updateLocation (request_location ?r 5)
                (the_object Map.empty (idFromName branded_platform ''my-app'')))"
  have 5: "\<not> management_route (strip_prefix (pathname (req_url ?r))) (req_method ?r)"
    unfolding cold_requests(2) by (rule cold_requests(4))
  have f: "fetch sample_ui branded_platform 5 Map.empty ?r
             = forward branded_platform 5 Map.empty ?r ''my-app'' ''/api/data''"
    using fetch_forward [OF cold_requests(3) cold_requests(1) my_app_valid 5]
    unfolding cold_requests(2) .
  have c: "container_fetch branded_platform (containerRequest ?r ''my-app'' ''/api/data'') ?d
           = (Inr branded_reply, wake 1700000000100 ?d)"
    by (simp add: branded_platform_def)
  have o: "out_response (fetch sample_ui branded_platform 5 Map.empty ?r)
             = branded_reply\<lparr>headers := AList.update ''x-served-by'' ''vibe-app-my-app''
                                            (headers branded_reply)\<rparr>"
    unfolding f forward_result(2) [OF c] by (simp add: headers_set_served_by)
  show ?thesis
    unfolding o c headers_get_def served_by_lower
    by (simp add: branded_reply_def)
qed

text \<open>
  Claim C7, amended: for every request that is forwarded and whose fetch on the instance
  returns a response, the caller's response has the status and the body of that response
  and its headers, except \<^verbatim>\<open>X-Served-By\<close>, which is set to \<^verbatim>\<open>vibe-app-\<close> and the app id:
  every other header is as the instance gave it; when the instance sent no
  \<^verbatim>\<open>X-Served-By\<close>, exactly that one header is added after the instance's; when it sent
  one, its value is replaced and the header names stay as they were.
\<close>

theorem forwarded_response_relayed:
  assumes "\<not> platform_path (pathname (req_url request))"
    and "extractAppId (req_url request) = Some k"
    and "valid_app_id k"
    and "\<not> management_route (strip_prefix (pathname (req_url request))) (req_method request)"
    and "container_fetch P
           (containerRequest request k (strip_prefix (pathname (req_url request))))
           (snd (updateLocation (request_location request now) (the_object w (idFromName P k))))
         = (Inr resp, d2)"
  shows "status (out_response (fetch ui P now w request)) = status resp
         \<and> body (out_response (fetch ui P now w request)) = body resp
         \<and> headers_get (headers (out_response (fetch ui P now w request))) ''X-Served-By''
             = Some (''vibe-app-'' @ k)
         \<and> (\<forall>n. map lower_char n \<noteq> ''x-served-by'' \<longrightarrow>
               headers_get (headers (out_response (fetch ui P now w request))) n
                 = headers_get (headers resp) n)
         \<and> fst ` set (headers (out_response (fetch ui P now w request)))
             = insert ''x-served-by'' (fst ` set (headers resp))
         \<and> (headers_get (headers resp) ''X-Served-By'' = None \<longrightarrow>
               headers (out_response (fetch ui P now w request))
                 = headers resp @ [(''x-served-by'', ''vibe-app-'' @ k)])
         \<and> (headers_get (headers resp) ''X-Served-By'' \<noteq> None \<longrightarrow>
               map fst (headers (out_response (fetch ui P now w request)))
                 = map fst (headers resp))"
proof -
  have r: "out_response (fetch ui P now w request)
             = resp\<lparr>headers := AList.update ''x-served-by'' (''vibe-app-'' @ k) (headers resp)\<rparr>"
    unfolding fetch_forward [OF assms(1-4)] forward_result(2) [OF assms(5)]
    by (simp add: headers_set_served_by)
  show ?thesis
    unfolding r headers_get_def served_by_lower
    by (simp add: update_conv' dom_update update_absent update_present_keys)
qed

theorem forwarded_response_relayed_witness:
  "status (out_response (fetch sample_ui hooked_platform 5 Map.empty
       (sample_request ''GET'' ''/app/my-app/api/data'' [] []))) = 201
   \<and> body (out_response (fetch sample_ui hooked_platform 5 Map.empty
       (sample_request ''GET'' ''/app/my-app/api/data'' [] []))) = TextBody ''created''
   \<and> headers (out_response (fetch sample_ui hooked_platform 5 Map.empty
       (sample_request ''GET'' ''/app/my-app/api/data'' [] [])))
       = [(''content-type'', ''text/plain''), (''x-app-id'', ''my-app''),
          (''x-served-by'', ''vibe-app-my-app'')]"
proof -
  let ?r = "sample_request ''GET'' ''/app/my-app/api/data'' [] []"
  let ?d = "snd (updateLocation (request_location ?r 5)
                (the_object Map.empty (idFromName hooked_platform ''my-app'')))"
  let ?o = "out_response (fetch sample_ui hooked_platform 5 Map.empty ?r)"
  have 5: "\<not> management_route (strip_prefix (pathname (req_url ?r))) (req_method ?r)"
    unfolding cold_requests(2) by (rule cold_requests(4))
  have c: "container_fetch hooked_platform
             (containerRequest ?r ''my-app'' (strip_prefix (pathname (req_url ?r)))) ?d
           = (Inr sample_reply, wake 1700000000100 ?d)"
    by (simp add: hooked_platform_def)
  have n: "headers_get (headers sample_reply) ''X-Served-By'' = None"
    unfolding headers_get_def served_by_lower by (simp add: sample_reply_def)
  note T = forwarded_response_relayed [OF cold_requests(3) cold_requests(1) my_app_valid 5 c,
      of sample_ui]
  from T have s: "status ?o = status sample_reply" by blast
  from T have b: "body ?o = body sample_reply" by blast
  from T n have h: "headers ?o = headers sample_reply @ [(''x-served-by'', ''vibe-app-'' @ ''my-app'')]"
    by blast
  show ?thesis
    unfolding s b h by (simp add: sample_reply_def)
qed

section \<open>Management paths with other methods\<close>

lemma sample_requests:
  "extractAppId (req_url (sample_request m ''/app/my-app/_restart'' [] [])) = Some ''my-app''"
  "extractAppId (req_url (sample_request m ''/app/my-app/_status'' [] [])) = Some ''my-app''"
  "strip_prefix (pathname (req_url (sample_request m ''/app/my-app/_restart'' [] []))) = ''/_restart''"
  "strip_prefix (pathname (req_url (sample_request m ''/app/my-app/_status'' [] []))) = ''/_status''"
  "valid_app_id ''my-app''"
  by (simp_all add: extractAppId_def pathMatch_def falsy_def sample_request_def strip_prefix_def
      valid_app_id_def is_key_char_def)

text \<open>
  Claim C10. A request whose instance-relative path is \<^verbatim>\<open>/_restart\<close> with a method other
  than POST, or \<^verbatim>\<open>/_metadata\<close> with a method other than GET, POST and PUT, runs step 6
  like any other path. The request that goes to the instance has that path and the method
  and body of the inbound one; the instance's fetch runs on the object that the location
  update left, and leaves the object; and what it answers, with \<^verbatim>\<open>X-Served-By\<close> set, is
  what the caller receives (or what it throws, as the 500 of the \<^verbatim>\<open>catch\<close>).
\<close>

theorem unhandled_management_method_forwarded:
  assumes "extractAppId (req_url request) = Some k"
    and "valid_app_id k"
    and "(strip_prefix (pathname (req_url request)) = ''/_restart''
            \<and> req_method request \<noteq> ''POST'')
         \<or> (strip_prefix (pathname (req_url request)) = ''/_metadata''
            \<and> req_method request \<noteq> ''GET'' \<and> req_method request \<noteq> ''POST''
            \<and> req_method request \<noteq> ''PUT'')"
    and "container_fetch P
           (containerRequest request k (strip_prefix (pathname (req_url request))))
           (snd (updateLocation (request_location request now) (the_object w (idFromName P k))))
         = (r, d2)"
  shows "fetch ui P now w request
           = forward P now w request k (strip_prefix (pathname (req_url request)))
         \<and> out_calls (fetch ui P now w request)
             = [(k, Call_updateLocation (request_location request now)),
                (k, Call_fetch (containerRequest request k
                                  (strip_prefix (pathname (req_url request)))))]
         \<and> pathname (req_url (containerRequest request k
                                  (strip_prefix (pathname (req_url request)))))
             = strip_prefix (pathname (req_url request))
         \<and> req_method (containerRequest request k (strip_prefix (pathname (req_url request))))
             = req_method request
         \<and> req_body (containerRequest request k (strip_prefix (pathname (req_url request))))
             = req_body request
         \<and> out_world (fetch ui P now w request) = w(idFromName P k \<mapsto> d2)
         \<and> out_response (fetch ui P now w request)
             = (case r of
                  Inl e \<Rightarrow> error_response e k
                | Inr resp \<Rightarrow>
                    resp\<lparr>headers :=
                           headers_set ''X-Served-By'' (''vibe-app-'' @ k) (headers resp)\<rparr>)"
proof -
  from assms(3) have np: "\<not> platform_path (pathname (req_url request))"
    using management_not_platform by blast
  from assms(3) have nm:
    "\<not> management_route (strip_prefix (pathname (req_url request))) (req_method request)"
    by (auto simp: management_route_def)
  show ?thesis
    unfolding fetch_forward [OF np assms(1,2) nm] forward_calls
      forward_result(1) [OF assms(4)] forward_result(2) [OF assms(4)]
    by (simp add: containerRequest_def)
qed

theorem unhandled_management_method_forwarded_witness:
  "body (out_response (fetch sample_ui echo_platform 5 Map.empty
       (sample_request ''DELETE'' ''/app/my-app/_restart'' [] []))) = TextBody ''DELETE /_restart''
   \<and> headers_get (headers (out_response (fetch sample_ui echo_platform 5 Map.empty
       (sample_request ''DELETE'' ''/app/my-app/_restart'' [] [])))) ''X-Served-By''
       = Some ''vibe-app-my-app''
   \<and> totalRequests (storage (object_after echo_platform (fetch sample_ui echo_platform 5 Map.empty
       (sample_request ''DELETE'' ''/app/my-app/_restart'' [] [])) ''my-app'')) = Some 1
   \<and> startCount (storage (object_after echo_platform (fetch sample_ui echo_platform 5 Map.empty
       (sample_request ''DELETE'' ''/app/my-app/_restart'' [] [])) ''my-app'')) = Some 1
   \<and> running (object_after echo_platform (fetch sample_ui echo_platform 5 Map.empty
       (sample_request ''DELETE'' ''/app/my-app/_restart'' [] [])) ''my-app'')"
proof -
  let ?r = "sample_request ''DELETE'' ''/app/my-app/_restart'' [] []"
  let ?c = "containerRequest ?r ''my-app'' (strip_prefix (pathname (req_url ?r)))"
  let ?d = "snd (updateLocation (request_location ?r 5)
                (the_object Map.empty (idFromName echo_platform ''my-app'')))"
  let ?out = "fetch sample_ui echo_platform 5 Map.empty ?r"
  have 5: "(strip_prefix (pathname (req_url ?r)) = ''/_restart'' \<and> req_method ?r \<noteq> ''POST'')
         \<or> (strip_prefix (pathname (req_url ?r)) = ''/_metadata''
            \<and> req_method ?r \<noteq> ''GET'' \<and> req_method ?r \<noteq> ''POST''
            \<and> req_method ?r \<noteq> ''PUT'')"
    unfolding sample_requests(3) by (simp add: sample_request_def)
  have c: "container_fetch echo_platform ?c ?d = (Inr (echo_reply ?c), wake 1700000000100 ?d)"
    by (simp add: echo_platform_def)
  note T = unhandled_management_method_forwarded [OF sample_requests(1) my_app_valid 5 c,
      of sample_ui]
  have e: "echo_reply ?c = \<lparr>status = 200, headers = [(''content-type'', ''text/plain'')],
                            body = TextBody ''DELETE /_restart''\<rparr>"
    unfolding sample_requests(3)
    by (simp add: echo_reply_def containerRequest_def sample_request_def)
  have w: "out_world ?out = Map.empty(idFromName echo_platform ''my-app'' \<mapsto> wake 1700000000100 ?d)"
    by (rule T [THEN conjunct2, THEN conjunct2, THEN conjunct2, THEN conjunct2, THEN conjunct2,
          THEN conjunct1])
  have o: "out_response ?out
             = (echo_reply ?c)\<lparr>headers := headers_set ''X-Served-By'' (''vibe-app-'' @ ''my-app'')
                                               (headers (echo_reply ?c))\<rparr>"
    using T [THEN conjunct2, THEN conjunct2, THEN conjunct2, THEN conjunct2, THEN conjunct2,
          THEN conjunct2]
    by (simp only: sum.case)
  have d: "totalRequests (storage (wake 1700000000100 ?d)) = Some 1
           \<and> startCount (storage (wake 1700000000100 ?d)) = Some 1
           \<and> running (wake 1700000000100 ?d)"
    by (simp add: wake_def updateLocation_def the_object_def fresh_def onStart_def or_zero_def
        Let_def)
  show ?thesis
    unfolding o w object_after_def the_object_upd e headers_set_served_by headers_get_def
      served_by_lower
    using d by (simp add: update_conv')
qed

section \<open>Metadata\<close>

lemma map_of_merged_metadata_opt:
  assumes "distinct (map fst (case old of None \<Rightarrow> [] | Some x \<Rightarrow> x))" and "distinct (map fst p)"
  shows "map_of (merged_metadata now (JObj p) old)
           = (map_of (case old of None \<Rightarrow> [] | Some x \<Rightarrow> x) ++ map_of p)(''updatedAt'' \<mapsto> JNum now)"
  using assms by (simp add: merged_metadata_def update_conv' map_of_obj_assign)

text \<open>The stored object keeps distinct keys, whatever the patch.\<close>

lemma distinct_merged_metadata: "distinct (map fst (merged_metadata now patch old))"
  by (simp add: merged_metadata_def distinct_update distinct_obj_assign)

text \<open>
  Claim C6. With \<^verbatim>\<open>m\<close> the metadata object already stored (the empty object when none
  is) and \<^verbatim>\<open>p\<close> the patch, \<^verbatim>\<open>setMetadata(p)\<close> stores the union of the two in which the
  values of \<^verbatim>\<open>p\<close> win, with \<^verbatim>\<open>updatedAt\<close> set to the time of the call, and returns
  \<^verbatim>\<open>{success: true}\<close>; the state in which it returns already holds the write, and
  \<^verbatim>\<open>getAppStatus\<close> on it reports that object.
\<close>

theorem setMetadata_merges:
  assumes "m = (case metadata (storage d) of None \<Rightarrow> [] | Some x \<Rightarrow> x)"
    and "distinct (map fst m)"
    and "distinct (map fst p)"
  shows "fst (setMetadata now (JObj p) d) = JObj [(''success'', JBool True)]
         \<and> (\<exists>md. metadata (storage (snd (setMetadata now (JObj p) d))) = Some md
                \<and> map_of md = (map_of m ++ map_of p)(''updatedAt'' \<mapsto> JNum now)
                \<and> obj_get (getAppStatus name doId (snd (setMetadata now (JObj p) d))) ''metadata''
                    = JObj md)"
proof -
  let ?md = "merged_metadata now (JObj p) (metadata (storage d))"
  have 1: "metadata (storage (snd (setMetadata now (JObj p) d))) = Some ?md"
    by (simp add: setMetadata_def)
  have 2: "map_of ?md = (map_of m ++ map_of p)(''updatedAt'' \<mapsto> JNum now)"
    using map_of_merged_metadata_opt [of "metadata (storage d)" p now] assms by simp
  have 3: "obj_get (getAppStatus name doId (snd (setMetadata now (JObj p) d))) ''metadata''
             = JObj ?md"
    unfolding getAppStatus_metadata 1 by simp
  have 4: "fst (setMetadata now (JObj p) d) = JObj [(''success'', JBool True)]"
    by (simp add: setMetadata_def)
  from 1 2 3 4 show ?thesis by blast
qed

theorem setMetadata_merges_witness:
  "obj_get (obj_get (getAppStatus ''my-app'' ''do-my-app''
      (snd (setMetadata 1700000000500
              (JObj [(''plan'', JStr ''pro''), (''team'', JStr ''core'')])
              (started_once\<lparr>storage := (storage started_once)
                 \<lparr>metadata := Some [(''owner'', JStr ''mel''), (''plan'', JStr ''free'')]\<rparr>\<rparr>))))
      ''metadata'') ''plan'' = JStr ''pro''
   \<and> obj_get (obj_get (getAppStatus ''my-app'' ''do-my-app''
      (snd (setMetadata 1700000000500
              (JObj [(''plan'', JStr ''pro''), (''team'', JStr ''core'')])
              (started_once\<lparr>storage := (storage started_once)
                 \<lparr>metadata := Some [(''owner'', JStr ''mel''), (''plan'', JStr ''free'')]\<rparr>\<rparr>))))
      ''metadata'') ''owner'' = JStr ''mel''
   \<and> obj_get (obj_get (getAppStatus ''my-app'' ''do-my-app''
      (snd (setMetadata 1700000000500
              (JObj [(''plan'', JStr ''pro''), (''team'', JStr ''core'')])
              (started_once\<lparr>storage := (storage started_once)
                 \<lparr>metadata := Some [(''owner'', JStr ''mel''), (''plan'', JStr ''free'')]\<rparr>\<rparr>))))
      ''metadata'') ''updatedAt'' = JNum 1700000000500"
proof -
  let ?m = "[(''owner'', JStr ''mel''), (''plan'', JStr ''free'')]"
  let ?p = "[(''plan'', JStr ''pro''), (''team'', JStr ''core'')]"
  let ?d = "started_once\<lparr>storage := (storage started_once)\<lparr>metadata := Some ?m\<rparr>\<rparr>"
  have 1: "?m = (case metadata (storage ?d) of None \<Rightarrow> [] | Some x \<Rightarrow> x)" by simp
  have 2: "distinct (map fst ?m)" by simp
  have 3: "distinct (map fst ?p)" by simp
  from setMetadata_merges [OF 1 2 3, of 1700000000500 "''my-app''" "''do-my-app''"]
  obtain md where
    a: "map_of md = (map_of ?m ++ map_of ?p)(''updatedAt'' \<mapsto> JNum 1700000000500)"
    and b: "obj_get (getAppStatus ''my-app'' ''do-my-app''
              (snd (setMetadata 1700000000500 (JObj ?p) ?d))) ''metadata'' = JObj md"
    by blast
  show ?thesis
    unfolding b by (simp add: obj_get_def a)
qed

section \<open>The restart endpoint\<close>




















end
